theory Spec2Isabelle
  imports Complex_Main "HOL-Library.List_Lexorder" "HOL-Library.Char_ord"
begin

section \<open>The loan table\<close>

text \<open>
  The page \<^verbatim>\<open>pages/02_Portfolio_Management.py\<close> reads one table of loan facilities and
  addresses its columns by fixed names. A row is a record with one field per column the
  filter and aggregation code reads; further columns live in the record's extension.
  The numeric columns hold floating-point numbers in the program; here they are real
  numbers, and every finite float is one. Sums, products and quotients are exact: the
  rounding of floating-point arithmetic, NaN and the infinities are not modelled.
\<close>

record timestamp =
  year :: nat
  month :: nat
  day :: nat

text \<open>\<^verbatim>\<open>.dt.to_period('M')\<close>: a timestamp's calendar month.\<close>

type_synonym period = "nat \<times> nat"

definition to_period_M :: "timestamp \<Rightarrow> period" where
  "to_period_M d = (year d, month d)"

record loan =
  Date :: timestamp
  Franchise :: string
  Sector :: string
  Credit_Rating :: string
  Product :: string
  Balance :: real
  Margin :: real
  RWA :: real
  Net_Interest_Income :: real
  Fee_Income :: real

section \<open>The filter pipeline\<close>

text \<open>
  Line 94:
  \<^verbatim>\<open>df_monthly = df_full[df_full['Date'].dt.to_period('M') == selected_month_period]\<close>
\<close>

definition df_monthly :: "('a loan_scheme) list \<Rightarrow> period \<Rightarrow> ('a loan_scheme) list" where
  "df_monthly df_full selected_month_period =
     filter (\<lambda>r. to_period_M (Date r) = selected_month_period) df_full"

text \<open>
  Lines 157 to 164: the boolean mask is the conjunction (\<^verbatim>\<open>&\<close>) of four \<^verbatim>\<open>isin\<close>
  tests and two comparisons with the slider's pair of integers.
\<close>

definition df_filtered ::
  "('a loan_scheme) list \<Rightarrow> string list \<Rightarrow> string list \<Rightarrow> string list \<Rightarrow> string list
     \<Rightarrow> int \<times> int \<Rightarrow> ('a loan_scheme) list" where
  "df_filtered df selected_franchises selected_sectors selected_ratings selected_products
       balance_range =
     filter (\<lambda>r. Franchise r \<in> set selected_franchises
                \<and> Sector r \<in> set selected_sectors
                \<and> Credit_Rating r \<in> set selected_ratings
                \<and> Product r \<in> set selected_products
                \<and> Balance r \<ge> of_int (fst balance_range)
                \<and> Balance r \<le> of_int (snd balance_range)) df"

section \<open>Exceptions\<close>

text \<open>
  The Python exceptions the page can meet, as values. All of them are subclasses of
  \<^verbatim>\<open>Exception\<close>; \<^verbatim>\<open>ModuleNotFoundError\<close> is a subclass of \<^verbatim>\<open>ImportError\<close>.
\<close>

datatype exn =
    FileNotFoundError
  | ImportError
  | ModuleNotFoundError
  | KeyError string
  | ValueError
  | TypeError
  | ZeroDivisionError
  | OtherException string

section \<open>Summary metrics of the month\<close>

text \<open>
  \<^verbatim>\<open>np.average(a, weights=w)\<close>: numpy sums the weights, raises
  \<^verbatim>\<open>ZeroDivisionError\<close> when the sum is zero, and otherwise divides the sum of the
  products by it.
\<close>

definition np_average :: "real list \<Rightarrow> real list \<Rightarrow> exn + real" where
  "np_average a weights =
     (let scl = sum_list weights
      in if scl = 0 then Inl ZeroDivisionError
         else Inr (sum_list (map2 (*) a weights) / scl))"

text \<open>Lines 99 to 108.\<close>

definition total_balance :: "('a loan_scheme) list \<Rightarrow> real" where
  "total_balance df = sum_list (map Balance df)"

definition total_rwa :: "('a loan_scheme) list \<Rightarrow> real" where
  "total_rwa df = sum_list (map RWA df)"

definition total_nii :: "('a loan_scheme) list \<Rightarrow> real" where
  "total_nii df = sum_list (map Net_Interest_Income df)"

definition total_fees :: "('a loan_scheme) list \<Rightarrow> real" where
  "total_fees df = sum_list (map Fee_Income df)"

definition facility_count :: "('a loan_scheme) list \<Rightarrow> nat" where
  "facility_count df = length df"

definition avg_margin :: "('a loan_scheme) list \<Rightarrow> exn + real" where
  "avg_margin df =
     (if total_balance df > 0 then np_average (map Margin df) (map Balance df)
      else Inr 0)"

text \<open>
  The formula of the specification, \<open>\<Sum>(Margin\<^sub>i \<times> Balance\<^sub>i) / \<Sum> Balance\<^sub>i\<close>, written
  from its words to compare \<^const>\<open>avg_margin\<close> with.
\<close>

definition spec_weighted_margin :: "('a loan_scheme) list \<Rightarrow> real" where
  "spec_weighted_margin df =
     (\<Sum>r\<leftarrow>df. Margin r * Balance r) / (\<Sum>r\<leftarrow>df. Balance r)"

section \<open>Options of the categorical filters\<close>

text \<open>
  Line 124 and lines 126 to 129. \<^verbatim>\<open>sorted(col.unique())\<close> orders the distinct strings
  of a column by code point, the lexicographic order on \<^typ>\<open>string\<close>.
\<close>

definition franchise_options :: "('a loan_scheme) list \<Rightarrow> string list" where
  "franchise_options df = sort (remdups (map Franchise df))"

definition sector_options :: "('a loan_scheme) list \<Rightarrow> string list" where
  "sector_options df = sort (remdups (map Sector df))"

definition product_options :: "('a loan_scheme) list \<Rightarrow> string list" where
  "product_options df = sort (remdups (map Product df))"

definition rating_options_all :: "string list" where
  "rating_options_all = [''AAA'', ''AA'', ''A'', ''BBB'', ''BB'', ''B'', ''CCC'']"

definition rating_options :: "('a loan_scheme) list \<Rightarrow> string list" where
  "rating_options df = [r \<leftarrow> rating_options_all. r \<in> set (map Credit_Rating df)]"

section \<open>The Balance slider\<close>

text \<open>\<^verbatim>\<open>int(x)\<close> on a float truncates toward zero.\<close>

definition py_int :: "real \<Rightarrow> int" where
  "py_int x = (if x \<ge> 0 then \<lfloor>x\<rfloor> else \<lceil>x\<rceil>)"

record slider =
  min_value :: int
  max_value :: int
  default_value :: "int \<times> int"
  step :: int

text \<open>
  Lines 138 to 151. On a frame without rows \<^verbatim>\<open>.min()\<close> is NaN and \<^verbatim>\<open>int\<close> raises
  \<^verbatim>\<open>ValueError\<close>; the page builds the slider only under \<^verbatim>\<open>if not df_monthly.empty\<close>.
  \<^verbatim>\<open>//\<close> is floor division, as \<open>div\<close> on \<^typ>\<open>int\<close> is.
\<close>

definition balance_slider :: "('a loan_scheme) list \<Rightarrow> exn + slider" where
  "balance_slider df =
     (if df = [] then Inl ValueError
      else
        let min_balance = py_int (Min (set (map Balance df)));
            max_balance = py_int (Max (set (map Balance df)));
            step_val = max 1 ((max_balance - min_balance) div 100);
            max_balance = (if min_balance \<ge> max_balance then min_balance + step_val
                           else max_balance)
        in Inr \<lparr> min_value = min_balance, max_value = max_balance,
                 default_value = (min_balance, max_balance), step = step_val \<rparr>)"

text \<open>
  The filtered frame when the user leaves every widget at its default: each multiselect
  returns all its options (lines 132 to 135) and the slider its \<^verbatim>\<open>value\<close>.
\<close>

definition default_filtered :: "('a loan_scheme) list \<Rightarrow> exn + ('a loan_scheme) list" where
  "default_filtered df =
     (case balance_slider df of
        Inl e \<Rightarrow> Inl e
      | Inr s \<Rightarrow> Inr (df_filtered df (franchise_options df) (sector_options df)
                  (rating_options df) (product_options df) (default_value s)))"

section \<open>Facility count by Credit Rating\<close>

text \<open>
  \<^verbatim>\<open>Series.value_counts()\<close>: one entry per distinct value, in order of first appearance,
  then sorted by decreasing count. Nothing below depends on the order among equal counts.
\<close>

definition value_counts :: "string list \<Rightarrow> (string \<times> nat) list" where
  "value_counts xs =
     sort_key (\<lambda>(v, c). - int c) (map (\<lambda>v. (v, count_list xs v)) (rev (remdups (rev xs))))"

text \<open>
  \<^verbatim>\<open>pd.Categorical(values, categories=cats, ordered=True)\<close> stores each value as its
  position in \<open>cats\<close>; a value that is not a category becomes NaN, here \<open>None\<close>.
\<close>

fun category_code :: "string list \<Rightarrow> string \<Rightarrow> nat option" where
  "category_code [] v = None"
| "category_code (c # cs) v = (if v = c then Some 0 else map_option Suc (category_code cs v))"

text \<open>\<^verbatim>\<open>sort_values\<close> on a categorical column orders by position, NaN last.\<close>

definition na_last :: "nat \<Rightarrow> nat option \<Rightarrow> nat" where
  "na_last n code = (case code of None \<Rightarrow> n | Some i \<Rightarrow> i)"

text \<open>Lines 183 to 186. The result pairs each category position with its count.\<close>

definition rating_counts :: "('a loan_scheme) list \<Rightarrow> (nat option \<times> nat) list" where
  "rating_counts df =
     (let counts = value_counts (map Credit_Rating df);
          categorical = map (\<lambda>(v, c). (category_code rating_options_all v, c)) counts
      in sort_key (\<lambda>(code, c). na_last (length rating_options_all) code) categorical)"

text \<open>The label column of the chart data: the category at each position.\<close>

definition rating_labels :: "(nat option \<times> nat) list \<Rightarrow> string option list" where
  "rating_labels counts = map (\<lambda>(code, c). map_option (\<lambda>i. rating_options_all ! i) code) counts"

text \<open>The sort key of a label: its position among the categories, or their number for NaN.\<close>

definition code_key :: "string list \<Rightarrow> string \<Rightarrow> nat" where
  "code_key cats v = na_last (length cats) (category_code cats v)"

section \<open>Catching exceptions\<close>

text \<open>
  The classes named in the page's \<^verbatim>\<open>except\<close> clauses, and Python's test whether a
  raised exception is an instance of a class: every exception of \<^typ>\<open>exn\<close> is an
  \<^verbatim>\<open>Exception\<close>, and \<^verbatim>\<open>ModuleNotFoundError\<close> is an \<^verbatim>\<open>ImportError\<close>.
\<close>

datatype exn_class = FileNotFoundError_class | ImportError_class | Exception_class

fun isinstance :: "exn \<Rightarrow> exn_class \<Rightarrow> bool" where
  "isinstance e Exception_class = True"
| "isinstance e FileNotFoundError_class = (e = FileNotFoundError)"
| "isinstance e ImportError_class = (e = ImportError \<or> e = ModuleNotFoundError)"

text \<open>
  \<^verbatim>\<open>try: body except C1: h1 except C2: h2 ...\<close>: a value of the body is returned as it
  is; a raised exception goes to the first clause whose class it is an instance of, and
  propagates when there is none.
\<close>

fun try_except :: "exn + 'a \<Rightarrow> (exn_class \<times> (exn \<Rightarrow> exn + 'a)) list \<Rightarrow> exn + 'a" where
  "try_except (Inr v) handlers = Inr v"
| "try_except (Inl e) [] = Inl e"
| "try_except (Inl e) ((c, h) # handlers) =
     (if isinstance e c then h e else try_except (Inl e) handlers)"

section \<open>The data loader\<close>

text \<open>Line 18, \<^verbatim>\<open>os.path.join('.', 'data', 'loan_data.parquet')\<close>.\<close>

definition data_file_path :: string where
  "data_file_path = ''./data/loan_data.parquet''"

text \<open>
  Lines 21 to 24, the body of the \<^verbatim>\<open>try\<close>. The two library calls are parameters:
  \<open>read_parquet\<close> is what \<^verbatim>\<open>pd.read_parquet(data_file_path)\<close> does when the page runs, a
  raw frame or a raised exception, and \<open>to_datetime\<close> is the step
  \<^verbatim>\<open>df['Date'] = pd.to_datetime(df['Date'])\<close>, which gives the table with its Date column
  as timestamps or raises (a \<^verbatim>\<open>KeyError\<close> without a Date column, a \<^verbatim>\<open>ValueError\<close> on
  a value that is no date).
\<close>

definition read_and_parse :: "exn + 'raw \<Rightarrow> ('raw \<Rightarrow> exn + 'tbl) \<Rightarrow> exn + 'tbl" where
  "read_and_parse read_parquet to_datetime =
     (case read_parquet of Inl e \<Rightarrow> Inl e | Inr df \<Rightarrow> to_datetime df)"

text \<open>
  Lines 14 to 36. The result pairs the messages passed to \<^verbatim>\<open>st.error\<close>, in order, with
  the returned frame; \<^verbatim>\<open>pd.DataFrame()\<close> is the frame without rows. \<open>str\<close> is
  Python's \<^verbatim>\<open>str(e)\<close> of the f-string in line 35.
\<close>

definition load_loan_data ::
  "(exn \<Rightarrow> string) \<Rightarrow> exn + 'raw \<Rightarrow> ('raw \<Rightarrow> exn + ('a loan_scheme) list)
     \<Rightarrow> exn + (string list \<times> ('a loan_scheme) list)" where
  "load_loan_data str read_parquet to_datetime =
     try_except
       (case read_and_parse read_parquet to_datetime of
          Inl e \<Rightarrow> Inl e
        | Inr df \<Rightarrow> Inr ([], df))
       [(FileNotFoundError_class, \<lambda>e. Inr
           ([''Error: Data file not found at '' @ [CHR 0x27] @ data_file_path @ [CHR 0x27],
             ''Ensure the 'data' folder exists in your main app directory and contains 'loan_data.parquet'.'',
             ''You may need to run the `create_data.py` script first.''], [])),
        (ImportError_class, \<lambda>e. Inr
           ([''Module 'pyarrow' not installed. Cannot read Parquet file.'',
             ''Please install it (`pip install pyarrow` in your venv) and restart the app.''], [])),
        (Exception_class, \<lambda>e. Inr
           ([''An error occurred loading the data file: '' @ str e], []))]"

section \<open>Display strings\<close>

text \<open>
  Python formats a float with \<^verbatim>\<open>.0f\<close> by rounding its exact value to the nearest
  integer, ties to the even one.
\<close>

definition round_half_even :: "real \<Rightarrow> int" where
  "round_half_even x =
     (let f = \<lfloor>x\<rfloor>; d = x - of_int f
      in if d < 1 / 2 then f else if d > 1 / 2 then f + 1
         else if even f then f else f + 1)"

text \<open>The decimal digits of a natural number, most significant first, without padding.\<close>

definition digit_char :: "nat \<Rightarrow> char" where
  "digit_char d = char_of (48 + d)"

fun decimal :: "nat \<Rightarrow> string" where
  "decimal n = (if n < 10 then [digit_char n] else decimal (n div 10) @ [digit_char (n mod 10)])"

declare decimal.simps [simp del]

text \<open>The \<^verbatim>\<open>,\<close> option: a comma before every group of three digits, counted from the right.\<close>

fun group_rev :: "string \<Rightarrow> string" where
  "group_rev (a # b # c # d # ds) = a # b # c # CHR '','' # group_rev (d # ds)"
| "group_rev ds = ds"

definition thousands :: "string \<Rightarrow> string" where
  "thousands ds = rev (group_rev (rev ds))"

text \<open>
  \<^verbatim>\<open>'{:,.0f}'.format(x)\<close>. The sign is that of \<open>x\<close>, also when \<open>x\<close> rounds to zero:
  \<^verbatim>\<open>-0.4\<close> gives \<^verbatim>\<open>-0\<close>.
\<close>

definition format_comma_0f :: "real \<Rightarrow> string" where
  "format_comma_0f x =
     (if x < 0 then ''-'' else '''') @ thousands (decimal (nat \<bar>round_half_even x\<bar>))"

text \<open>The pound sign U+00A3, as its two bytes in UTF-8.\<close>

definition pound :: string where
  "pound = [CHR 0xC2, CHR 0xA3]"

text \<open>Line 213, the pound sign followed by \<^verbatim>\<open>{:,.0f}\<close>.\<close>

definition format_currency :: "real \<Rightarrow> string" where
  "format_currency x = pound @ format_comma_0f x"

definition zero_pad :: "nat \<Rightarrow> string \<Rightarrow> string" where
  "zero_pad n s = replicate (n - length s) (CHR ''0'') @ s"

text \<open>\<^verbatim>\<open>'{:.pf}'.format(y)\<close>: \<open>y\<close> rounded to \<open>p\<close> decimal places.\<close>

definition format_fixed :: "nat \<Rightarrow> real \<Rightarrow> string" where
  "format_fixed p y =
     (let r = nat \<bar>round_half_even (y * 10 ^ p)\<bar>
      in (if y < 0 then ''-'' else '''') @ decimal (r div 10 ^ p)
         @ (if p = 0 then '''' else ''.'' @ zero_pad p (decimal (r mod 10 ^ p))))"

text \<open>
  Lines 216, 219 and 222, \<^verbatim>\<open>'{:.p%}'.format(x)\<close>. CPython first multiplies the double by
  100 in floating point, then writes that product with \<open>p\<close> decimal places and a percent
  sign. The floating-point product is not the exact one (for the double nearest 0.0015 it
  is the double nearest 0.15, which lies below 0.15), so it is the parameter \<open>times100\<close>.
\<close>

definition format_percent :: "(real \<Rightarrow> real) \<Rightarrow> nat \<Rightarrow> real \<Rightarrow> string" where
  "format_percent times100 p x = format_fixed p (times100 x) @ ''%''"

text \<open>Line 224, \<^verbatim>\<open>strftime('%Y-%m-%d')\<close>; the year of a pandas timestamp has four digits.\<close>

definition strftime_ymd :: "timestamp \<Rightarrow> string" where
  "strftime_ymd t =
     zero_pad 4 (decimal (year t)) @ ''-'' @ zero_pad 2 (decimal (month t)) @ ''-''
       @ zero_pad 2 (decimal (day t))"

section \<open>Reading a monetary display string back\<close>

text \<open>
  Modelled from the spec: the page has no parser. The specification's round trip strips
  the currency symbol and the separators from a display string and parses what is left
  as a number; here that is an optional minus sign followed by decimal digits.
\<close>

definition strip_currency :: "string \<Rightarrow> string" where
  "strip_currency s = filter (\<lambda>c. c \<notin> set pound \<and> c \<noteq> CHR '','') s"

definition is_digit :: "char \<Rightarrow> bool" where
  "is_digit c = (48 \<le> (of_char c :: nat) \<and> (of_char c :: nat) \<le> 57)"

definition digit_val :: "char \<Rightarrow> nat" where
  "digit_val c = of_char c - 48"

definition parse_nat :: "string \<Rightarrow> nat option" where
  "parse_nat s =
     (if s \<noteq> [] \<and> list_all is_digit s
      then Some (foldl (\<lambda>a c. 10 * a + digit_val c) 0 s) else None)"

fun parse_number :: "string \<Rightarrow> real option" where
  "parse_number [] = None"
| "parse_number (c # s) =
     (if c = CHR ''-'' then map_option (\<lambda>n. - of_nat n) (parse_nat s)
      else map_option of_nat (parse_nat (c # s)))"

definition parse_currency :: "string \<Rightarrow> real option" where
  "parse_currency s = parse_number (strip_currency s)"

section \<open>The display table\<close>

text \<open>
  The formatting step addresses columns by name and tests which are present, so here a
  frame is the list of its columns in order, each with its name and its cells. A column
  holds numbers, text or timestamps. Missing values are not modelled.
\<close>

datatype column = Numbers "real list" | Texts "string list" | Stamps "timestamp list"

type_synonym frame = "(string \<times> column) list"

definition columns :: "frame \<Rightarrow> string list" where
  "columns df = map fst df"

text \<open>\<^verbatim>\<open>df[col]\<close> raises \<^verbatim>\<open>KeyError\<close> for a name that is no column.\<close>

definition getitem :: "frame \<Rightarrow> string \<Rightarrow> exn + column" where
  "getitem df col = (case map_of df col of None \<Rightarrow> Inl (KeyError col) | Some c \<Rightarrow> Inr c)"

text \<open>\<^verbatim>\<open>df[col] = c\<close> replaces the column in its place, or appends a new one.\<close>

fun setitem :: "frame \<Rightarrow> string \<Rightarrow> column \<Rightarrow> frame" where
  "setitem [] col c = [(col, c)]"
| "setitem ((k, v) # df) col c =
     (if k = col then (k, c) # df else (k, v) # setitem df col c)"

definition and_then :: "exn + 'a \<Rightarrow> ('a \<Rightarrow> exn + 'b) \<Rightarrow> exn + 'b" where
  "and_then m f = (case m of Inl e \<Rightarrow> Inl e | Inr v \<Rightarrow> f v)"

text \<open>
  The three kinds of column formatting of lines 213 to 224, on the kind of column each is
  written for. On text, the format code \<^verbatim>\<open>f\<close> raises \<^verbatim>\<open>ValueError\<close> at the first cell.
  What pandas does in the other cases where a formatter meets a column of another kind
  (it may raise, convert or produce other text) is the parameter \<open>other\<close>, which is given
  the format and the column.
\<close>

definition map_currency :: "(string \<Rightarrow> column \<Rightarrow> exn + column) \<Rightarrow> column \<Rightarrow> exn + column" where
  "map_currency other c =
     (case c of
        Numbers xs \<Rightarrow> Inr (Texts (map format_currency xs))
      | Texts [] \<Rightarrow> Inr (Texts [])
      | Texts (cell # cells) \<Rightarrow> Inl ValueError
      | Stamps ts \<Rightarrow> other (pound @ ''{:,.0f}'') c)"

definition map_percent ::
  "(real \<Rightarrow> real) \<Rightarrow> nat \<Rightarrow> (string \<Rightarrow> column \<Rightarrow> exn + column) \<Rightarrow> column \<Rightarrow> exn + column" where
  "map_percent times100 p other c =
     (case c of Numbers xs \<Rightarrow> Inr (Texts (map (format_percent times100 p) xs))
      | _ \<Rightarrow> other (''{:.'' @ decimal p @ ''%}'') c)"

definition map_strftime :: "(string \<Rightarrow> column \<Rightarrow> exn + column) \<Rightarrow> column \<Rightarrow> exn + column" where
  "map_strftime other c =
     (case c of Stamps ts \<Rightarrow> Inr (Texts (map strftime_ymd ts))
      | _ \<Rightarrow> other ''%Y-%m-%d'' c)"

text \<open>
  The loops of lines 211 to 222:
  \<^verbatim>\<open>for col in cols: if col in df_display.columns: df_display[col] = fmt(df_display[col])\<close>.
\<close>

fun format_columns :: "(column \<Rightarrow> exn + column) \<Rightarrow> string list \<Rightarrow> frame \<Rightarrow> exn + frame" where
  "format_columns fmt [] df = Inr df"
| "format_columns fmt (col # cols) df =
     (if col \<in> set (columns df)
      then and_then (getitem df col) (\<lambda>c.
           and_then (fmt c) (\<lambda>c'. format_columns fmt cols (setitem df col c')))
      else format_columns fmt cols df)"

text \<open>\<^verbatim>\<open>df[cols]\<close> with a list of names: those columns, in that order.\<close>

fun select_columns :: "frame \<Rightarrow> string list \<Rightarrow> exn + frame" where
  "select_columns df [] = Inr []"
| "select_columns df (col # cols) =
     and_then (getitem df col) (\<lambda>c.
     and_then (select_columns df cols) (\<lambda>rest. Inr ((col, c) # rest)))"

definition money_cols :: "string list" where
  "money_cols = [''Balance'', ''EAD'', ''RWA'', ''Interest Income'', ''Interest Costs'',
     ''Net Interest Income'', ''Fee Income'']"

definition display_cols_all :: "string list" where
  "display_cols_all = [''Date'', ''Facility ID'', ''Customer Name'', ''Franchise'', ''Sector'',
     ''Product'', ''Balance'', ''Margin'', ''Net Interest Income'', ''Fee Income'', ''RAROE'',
     ''Credit Rating'', ''PD'', ''LGD'', ''EAD'', ''RWA'', ''Interest Income'',
     ''Interest Costs'']"

text \<open>Lines 211 to 234, the body of the \<^verbatim>\<open>try\<close>.\<close>

definition format_body ::
  "(real \<Rightarrow> real) \<Rightarrow> (string \<Rightarrow> column \<Rightarrow> exn + column) \<Rightarrow> frame \<Rightarrow> exn + frame" where
  "format_body times100 other df_display =
     and_then (format_columns (map_currency other) money_cols df_display) (\<lambda>df1.
     and_then (format_columns (map_percent times100 2 other) [''Margin'', ''RAROE''] df1) (\<lambda>df2.
     and_then (format_columns (map_percent times100 4 other) [''PD''] df2) (\<lambda>df3.
     and_then (format_columns (map_percent times100 1 other) [''LGD''] df3) (\<lambda>df4.
     and_then (getitem df4 ''Date'') (\<lambda>d.
     and_then (map_strftime other d) (\<lambda>d'.
       let df5 = setitem df4 ''Date'' d';
           display_cols = [col \<leftarrow> display_cols_all. col \<in> set (columns df5)]
       in select_columns df5 display_cols))))))"

text \<open>
  Lines 206 to 238. The result pairs the messages passed to \<^verbatim>\<open>st.error\<close> with the frame
  handed to \<^verbatim>\<open>st.dataframe\<close>; \<open>df\<close> is the page's \<^verbatim>\<open>df_filtered\<close>, to which the handler
  falls back.
\<close>

definition format_display ::
  "(exn \<Rightarrow> string) \<Rightarrow> (real \<Rightarrow> real) \<Rightarrow> (string \<Rightarrow> column \<Rightarrow> exn + column) \<Rightarrow> frame
     \<Rightarrow> exn + (string list \<times> frame)" where
  "format_display str times100 other df =
     try_except
       (and_then (format_body times100 other df) (\<lambda>df_display. Inr ([], df_display)))
       [(Exception_class, \<lambda>e. Inr
           ([''Error formatting display data: '' @ str e], df))]"

text \<open>
  What a frame that reaches the formatting step can be relied on for. Its Date column
  holds timestamps: line 23 converts it in the loader, and lines 81 and 94 read it before
  any filter. The second condition is the data model's: each monetary or percentage
  column that is present holds numbers.
\<close>

definition is_numbers :: "frame \<Rightarrow> string \<Rightarrow> bool" where
  "is_numbers df col = (case map_of df col of Some (Numbers xs) \<Rightarrow> True | _ \<Rightarrow> False)"

definition is_stamps :: "frame \<Rightarrow> string \<Rightarrow> bool" where
  "is_stamps df col = (case map_of df col of Some (Stamps ts) \<Rightarrow> True | _ \<Rightarrow> False)"

definition numeric_cols :: "string list" where
  "numeric_cols = money_cols @ [''Margin'', ''RAROE'', ''PD'', ''LGD'']"

definition loan_frame :: "frame \<Rightarrow> bool" where
  "loan_frame df \<longleftrightarrow>
     is_stamps df ''Date''
     \<and> list_all (\<lambda>col. col \<notin> set (columns df) \<or> is_numbers df col) numeric_cols"

section \<open>Sample data\<close>

definition row1 :: loan where
  "row1 = \<lparr> Date = \<lparr> year = 2025, month = 2, day = 28 \<rparr>,
            Franchise = ''North'', Sector = ''Retail'', Credit_Rating = ''AA'',
            Product = ''Term Loan'', Balance = 100, Margin = 1 / 100,
            RWA = 50, Net_Interest_Income = 1, Fee_Income = 0 \<rparr>"

definition row2 :: loan where
  "row2 = \<lparr> Date = \<lparr> year = 2025, month = 2, day = 28 \<rparr>,
            Franchise = ''South'', Sector = ''Energy'', Credit_Rating = ''AAA'',
            Product = ''Revolver'', Balance = 300, Margin = 2 / 100,
            RWA = 200, Net_Interest_Income = 6, Fee_Income = 1 \<rparr>"

definition row3 :: loan where
  "row3 = \<lparr> Date = \<lparr> year = 2025, month = 1, day = 31 \<rparr>,
            Franchise = ''North'', Sector = ''Retail'', Credit_Rating = ''B'',
            Product = ''Term Loan'', Balance = 250, Margin = 3 / 100,
            RWA = 250, Net_Interest_Income = 7, Fee_Income = 2 \<rparr>"

definition row_neg :: loan where
  "row_neg = \<lparr> Date = \<lparr> year = 2025, month = 2, day = 28 \<rparr>,
            Franchise = ''North'', Sector = ''Retail'', Credit_Rating = ''AA'',
            Product = ''Term Loan'', Balance = - 100, Margin = 1 / 100,
            RWA = 50, Net_Interest_Income = 1, Fee_Income = 0 \<rparr>"

definition row_half :: loan where
  "row_half = \<lparr> Date = \<lparr> year = 2025, month = 2, day = 28 \<rparr>,
            Franchise = ''North'', Sector = ''Retail'', Credit_Rating = ''AA'',
            Product = ''Term Loan'', Balance = 201 / 2, Margin = 1 / 100,
            RWA = 50, Net_Interest_Income = 1, Fee_Income = 0 \<rparr>"

definition row_big :: loan where
  "row_big = \<lparr> Date = \<lparr> year = 2025, month = 2, day = 28 \<rparr>,
            Franchise = ''South'', Sector = ''Energy'', Credit_Rating = ''BBB'',
            Product = ''Revolver'', Balance = 601 / 2, Margin = 2 / 100,
            RWA = 50, Net_Interest_Income = 1, Fee_Income = 0 \<rparr>"

definition row_small_neg :: loan where
  "row_small_neg = \<lparr> Date = \<lparr> year = 2025, month = 2, day = 28 \<rparr>,
            Franchise = ''South'', Sector = ''Energy'', Credit_Rating = ''BBB'',
            Product = ''Revolver'', Balance = - (3 / 2), Margin = 2 / 100,
            RWA = 50, Net_Interest_Income = 1, Fee_Income = 0 \<rparr>"

text \<open>
  Two frames of one facility with every column the page reads before the display table
  (lines 81 to 186), the optional column EAD, and no Facility ID or Customer Name. They
  differ in EAD only: a number in the first, the text \<^verbatim>\<open>n/a\<close> in the second.
\<close>

definition frame_numeric :: frame where
  "frame_numeric =
     [(''Date'', Stamps [\<lparr> year = 2025, month = 2, day = 28 \<rparr>]),
      (''Franchise'', Texts [''North'']),
      (''Sector'', Texts [''Retail'']),
      (''Credit Rating'', Texts [''AA'']),
      (''Product'', Texts [''Term Loan'']),
      (''Balance'', Numbers [100]),
      (''Margin'', Numbers [1 / 100]),
      (''RWA'', Numbers [50]),
      (''Net Interest Income'', Numbers [1]),
      (''Fee Income'', Numbers [0]),
      (''EAD'', Numbers [120])]"

definition frame_text_ead :: frame where
  "frame_text_ead =
     [(''Date'', Stamps [\<lparr> year = 2025, month = 2, day = 28 \<rparr>]),
      (''Franchise'', Texts [''North'']),
      (''Sector'', Texts [''Retail'']),
      (''Credit Rating'', Texts [''AA'']),
      (''Product'', Texts [''Term Loan'']),
      (''Balance'', Numbers [100]),
      (''Margin'', Numbers [1 / 100]),
      (''RWA'', Numbers [50]),
      (''Net Interest Income'', Numbers [1]),
      (''Fee Income'', Numbers [0]),
      (''EAD'', Texts [''n/a''])]"

text \<open>The same facility without EAD and with the text \<^verbatim>\<open>n/a\<close> in the optional column PD.\<close>

definition frame_text_pd :: frame where
  "frame_text_pd =
     [(''Date'', Stamps [\<lparr> year = 2025, month = 2, day = 28 \<rparr>]),
      (''Franchise'', Texts [''North'']),
      (''Sector'', Texts [''Retail'']),
      (''Credit Rating'', Texts [''AA'']),
      (''Product'', Texts [''Term Loan'']),
      (''Balance'', Numbers [100]),
      (''Margin'', Numbers [1 / 100]),
      (''RWA'', Numbers [50]),
      (''Net Interest Income'', Numbers [1]),
      (''Fee Income'', Numbers [0]),
      (''PD'', Texts [''n/a''])]"

section \<open>Properties of the filter pipeline\<close>

text \<open>
  C1. Every row of the filtered result satisfies all predicates at once: its Date is in
  the selected month, its Franchise, Sector, Credit Rating and Product are in the
  selected sets, and its Balance is in the inclusive range. So no row that violates one
  of them is returned.
\<close>

theorem df_filtered_all_predicates:
  "\<forall>r \<in> set (df_filtered (df_monthly df_full m) fs ss rs ps (lo, hi)).
     to_period_M (Date r) = m
     \<and> Franchise r \<in> set fs \<and> Sector r \<in> set ss
     \<and> Credit_Rating r \<in> set rs \<and> Product r \<in> set ps
     \<and> of_int lo \<le> Balance r \<and> Balance r \<le> of_int hi"
  by (simp add: df_filtered_def df_monthly_def)

theorem df_filtered_all_predicates_witness:
  "row1 \<in> set (df_filtered (df_monthly [row1, row2, row3] (2025, 2))
       [''North''] [''Retail'', ''Energy''] [''AAA'', ''AA''] [''Term Loan''] (100, 300))
   \<and> to_period_M (Date row1) = (2025, 2)
   \<and> Franchise row1 \<in> set [''North''] \<and> Sector row1 \<in> set [''Retail'', ''Energy'']
   \<and> Credit_Rating row1 \<in> set [''AAA'', ''AA''] \<and> Product row1 \<in> set [''Term Loan'']
   \<and> of_int 100 \<le> Balance row1 \<and> Balance row1 \<le> of_int 300"
proof -
  have mem: "row1 \<in> set (df_filtered (df_monthly [row1, row2, row3] (2025, 2))
       [''North''] [''Retail'', ''Energy''] [''AAA'', ''AA''] [''Term Loan''] (100, 300))"
    by (simp add: df_filtered_def df_monthly_def to_period_M_def row1_def row2_def row3_def)
  from df_filtered_all_predicates [of "[row1, row2, row3]" "(2025, 2)" "[''North'']"
      "[''Retail'', ''Energy'']" "[''AAA'', ''AA'']" "[''Term Loan'']" 100 300] mem
  show ?thesis by blast
qed

text \<open>
  C3. When the four categorical selections are all empty, the filtered result is empty,
  whatever the table, the month and the Balance range: an empty selection excludes every
  row.
\<close>

theorem df_filtered_empty_selection:
  "df_filtered (df_monthly df_full m) [] [] [] [] balance_range = []"
  by (simp add: df_filtered_def)

section \<open>Properties of the summary metrics\<close>

lemma sum_list_map2_times:
  "sum_list (map2 (*) (map f df) (map g df)) = (\<Sum>r\<leftarrow>df. f r * (g r :: real))"
  by (induction df) simp_all

lemma avg_margin_positive:
  "total_balance df > 0 \<Longrightarrow> avg_margin df = Inr (spec_weighted_margin df)"
  by (simp add: avg_margin_def np_average_def total_balance_def spec_weighted_margin_def
      sum_list_map2_times)

lemma avg_margin_nonpositive:
  "total_balance df \<le> 0 \<Longrightarrow> avg_margin df = Inr 0"
  by (simp add: avg_margin_def)

lemma df_monthly_sample: "df_monthly [row1, row2, row3] (2025, 2) = [row1, row2]"
  by (simp add: df_monthly_def to_period_M_def row1_def row2_def row3_def)

text \<open>
  C2, as amended. On a month-filtered subset whose total Balance is strictly positive the
  weighted-average Margin is \<open>\<Sum>(Margin\<^sub>i \<times> Balance\<^sub>i) / \<Sum> Balance\<^sub>i\<close> over that subset;
  when the total Balance is zero or negative it is 0.
\<close>

theorem avg_margin_weighted:
  "(total_balance (df_monthly df_full m) > 0 \<longrightarrow>
      avg_margin (df_monthly df_full m) = Inr (spec_weighted_margin (df_monthly df_full m)))
   \<and> (total_balance (df_monthly df_full m) \<le> 0 \<longrightarrow> avg_margin (df_monthly df_full m) = Inr 0)"
  by (simp add: avg_margin_positive avg_margin_nonpositive)

theorem avg_margin_weighted_witness:
  "total_balance (df_monthly [row1, row2, row3] (2025, 2)) > 0
   \<and> avg_margin (df_monthly [row1, row2, row3] (2025, 2)) = Inr (7 / 400)
   \<and> spec_weighted_margin (df_monthly [row1, row2, row3] (2025, 2)) = 7 / 400
   \<and> total_balance (df_monthly [row_neg, row1, row3] (2025, 2)) \<le> 0
   \<and> avg_margin (df_monthly [row_neg, row1, row3] (2025, 2)) = Inr 0"
proof -
  have pos: "total_balance (df_monthly [row1, row2, row3] (2025, 2)) > 0"
    unfolding df_monthly_sample by (simp add: total_balance_def row1_def row2_def)
  have val: "spec_weighted_margin (df_monthly [row1, row2, row3] (2025, 2)) = 7 / 400"
    unfolding df_monthly_sample by (simp add: spec_weighted_margin_def row1_def row2_def)
  have m: "df_monthly [row_neg, row1, row3] (2025, 2) = [row_neg, row1]"
    by (simp add: df_monthly_def to_period_M_def row_neg_def row1_def row3_def)
  have zero: "total_balance (df_monthly [row_neg, row1, row3] (2025, 2)) \<le> 0"
    unfolding m by (simp add: total_balance_def row_neg_def row1_def)
  from avg_margin_weighted [of "[row1, row2, row3]" "(2025, 2)"]
    avg_margin_weighted [of "[row_neg, row1, row3]" "(2025, 2)"] pos val zero
  show ?thesis by simp
qed

text \<open>
  C2 as stated fails where the total Balance is negative: for the single February row
  with Balance -100 and Margin 0.01 the formula gives 0.01 and the page shows 0.
\<close>

theorem avg_margin_formula_counterexample:
  "df_monthly [row_neg, row3] (2025, 2) \<noteq> []
   \<and> avg_margin (df_monthly [row_neg, row3] (2025, 2)) = Inr 0
   \<and> spec_weighted_margin (df_monthly [row_neg, row3] (2025, 2)) = 1 / 100
   \<and> avg_margin (df_monthly [row_neg, row3] (2025, 2))
       \<noteq> Inr (spec_weighted_margin (df_monthly [row_neg, row3] (2025, 2)))"
  by (simp add: df_monthly_def to_period_M_def avg_margin_def total_balance_def
      spec_weighted_margin_def row_neg_def row3_def)

text \<open>
  C10. On a month-filtered subset whose total Balance is strictly negative the
  weighted-average Margin is 0; it is not the value of the formula whenever that value
  is not itself 0.
\<close>

theorem avg_margin_negative_total:
  "total_balance (df_monthly df_full m) < 0 \<Longrightarrow>
     avg_margin (df_monthly df_full m) = Inr 0
     \<and> (spec_weighted_margin (df_monthly df_full m) \<noteq> 0 \<longrightarrow>
          avg_margin (df_monthly df_full m) \<noteq> Inr (spec_weighted_margin (df_monthly df_full m)))"
  by (simp add: avg_margin_def)

theorem avg_margin_negative_total_witness:
  "total_balance (df_monthly [row_neg] (2025, 2)) < 0
   \<and> spec_weighted_margin (df_monthly [row_neg] (2025, 2)) = 1 / 100
   \<and> avg_margin (df_monthly [row_neg] (2025, 2)) = Inr 0
   \<and> avg_margin (df_monthly [row_neg] (2025, 2)) \<noteq> Inr (spec_weighted_margin (df_monthly [row_neg] (2025, 2)))"
proof -
  have m: "df_monthly [row_neg] (2025, 2) = [row_neg]"
    by (simp add: df_monthly_def to_period_M_def row_neg_def)
  have neg: "total_balance (df_monthly [row_neg] (2025, 2)) < 0"
    unfolding m by (simp add: total_balance_def row_neg_def)
  have val: "spec_weighted_margin (df_monthly [row_neg] (2025, 2)) = 1 / 100"
    unfolding m by (simp add: spec_weighted_margin_def row_neg_def)
  from avg_margin_negative_total [OF neg] neg val show ?thesis by simp
qed

section \<open>Properties of the Balance slider\<close>

lemma floor_max_one: "\<lfloor>max 1 (of_int k / 100 :: real)\<rfloor> = max 1 (k div 100)"
proof -
  have d: "\<lfloor>of_int k / 100 :: real\<rfloor> = k div 100"
    using floor_divide_of_int_eq [of k 100, where ?'a = real] by simp
  show ?thesis
  proof (cases "(1::real) \<le> of_int k / 100")
    case True
    then have "1 \<le> \<lfloor>of_int k / 100 :: real\<rfloor>" by linarith
    with True d show ?thesis by (simp add: max_def)
  next
    case False
    then have "\<lfloor>of_int k / 100 :: real\<rfloor> < 1" by linarith
    with False d show ?thesis by (simp add: max_def)
  qed
qed

lemma py_int_of_int: "py_int (of_int a) = a"
  by (simp add: py_int_def)

lemma py_int_pos_less: "0 < x \<Longrightarrow> x \<notin> \<int> \<Longrightarrow> of_int (py_int x) < x"
  unfolding py_int_def by (simp add: less_eq_real_def) (metis Ints_of_int of_int_floor_le order_le_less)

lemma df_monthly_half_big:
  "df_monthly [row_half, row_big, row3] (2025, 2) = [row_half, row_big]"
  by (simp add: df_monthly_def to_period_M_def row_half_def row_big_def row3_def)

text \<open>
  C6. When the smallest and the largest Balance of a non-empty month-filtered subset are
  the integers \<open>a\<close> and \<open>b\<close>, the slider's step is \<open>max(1, (b - a) / 100)\<close> rounded down;
  when \<open>a = b\<close> the upper bound is \<open>a\<close> plus one step, otherwise it is \<open>b\<close>; in both cases
  the lower bound is below the upper one.
\<close>

theorem balance_slider_step:
  assumes "df_monthly df_full m \<noteq> []"
    and "Min (set (map Balance (df_monthly df_full m))) = of_int a"
    and "Max (set (map Balance (df_monthly df_full m))) = of_int b"
  shows "\<exists>s. balance_slider (df_monthly df_full m) = Inr s
           \<and> step s = \<lfloor>max 1 ((of_int b - of_int a) / 100 :: real)\<rfloor>
           \<and> min_value s = a
           \<and> (a = b \<longrightarrow> max_value s = a + step s)
           \<and> (a < b \<longrightarrow> max_value s = b)
           \<and> min_value s < max_value s"
proof -
  have fin: "finite (set (map Balance (df_monthly df_full m)))"
    and ne: "set (map Balance (df_monthly df_full m)) \<noteq> {}"
    using assms(1) by simp_all
  have "Min (set (map Balance (df_monthly df_full m))) \<le> Max (set (map Balance (df_monthly df_full m)))"
    using fin ne by (meson Min_in Max_ge)
  with assms(2,3) have le: "a \<le> b" by simp
  have st: "\<lfloor>max 1 ((of_int b - of_int a) / 100 :: real)\<rfloor> = max 1 ((b - a) div 100)"
    using floor_max_one [of "b - a"] by simp
  show ?thesis
    using assms le unfolding st
    by (auto simp: balance_slider_def Let_def py_int_of_int)
qed

theorem balance_slider_step_witness:
  "df_monthly [row1, row2, row3] (2025, 2) \<noteq> []
   \<and> Min (set (map Balance (df_monthly [row1, row2, row3] (2025, 2)))) = of_int 100
   \<and> Max (set (map Balance (df_monthly [row1, row2, row3] (2025, 2)))) = of_int 300
   \<and> (\<exists>s. balance_slider (df_monthly [row1, row2, row3] (2025, 2)) = Inr s
          \<and> step s = 2 \<and> min_value s = 100 \<and> max_value s = 300)
   \<and> df_monthly [row1, row3] (2025, 2) \<noteq> []
   \<and> Min (set (map Balance (df_monthly [row1, row3] (2025, 2)))) = of_int 100
   \<and> Max (set (map Balance (df_monthly [row1, row3] (2025, 2)))) = of_int 100
   \<and> (\<exists>s. balance_slider (df_monthly [row1, row3] (2025, 2)) = Inr s
          \<and> step s = 1 \<and> min_value s = 100 \<and> max_value s = 101)"
proof -
  let ?df = "df_monthly [row1, row2, row3] (2025, 2)"
  let ?one = "df_monthly [row1, row3] (2025, 2)"
  have one: "?one = [row1]"
    by (simp add: df_monthly_def to_period_M_def row1_def row3_def)
  have ne: "?df \<noteq> []" "?one \<noteq> []"
    unfolding df_monthly_sample one by simp_all
  have mn: "Min (set (map Balance ?df)) = of_int 100"
    and mx: "Max (set (map Balance ?df)) = of_int 300"
    unfolding df_monthly_sample by (simp_all add: row1_def row2_def)
  have mn1: "Min (set (map Balance ?one)) = of_int 100"
    and mx1: "Max (set (map Balance ?one)) = of_int 100"
    unfolding one by (simp_all add: row1_def)
  have "\<exists>s. balance_slider ?df = Inr s \<and> step s = 2 \<and> min_value s = 100 \<and> max_value s = 300"
    using balance_slider_step [OF ne(1) mn mx] by auto
  moreover
  have "\<exists>s. balance_slider ?one = Inr s \<and> step s = 1 \<and> min_value s = 100 \<and> max_value s = 101"
    using balance_slider_step [OF ne(2) mn1 mx1] by auto
  ultimately show ?thesis using ne mn mx mn1 mx1 by blast
qed

text \<open>
  C9, as amended. The slider's lower bound is \<open>int(min Balance)\<close>. Its upper bound is
  \<open>int(max Balance)\<close> when \<open>int(min Balance) < int(max Balance)\<close>, and the lower bound plus
  one step otherwise. The default selection is the pair of the two bounds. When the
  largest Balance is positive and not an integer and \<open>int(min Balance) < int(max Balance)\<close>,
  no row holding the largest Balance passes the default range, whatever the categorical
  selections are.
\<close>

theorem balance_slider_bounds:
  assumes "df_monthly df_full m \<noteq> []"
  shows "\<exists>s. balance_slider (df_monthly df_full m) = Inr s
     \<and> min_value s = py_int (Min (set (map Balance (df_monthly df_full m))))
     \<and> (py_int (Min (set (map Balance (df_monthly df_full m))))
           < py_int (Max (set (map Balance (df_monthly df_full m))))
         \<longrightarrow> max_value s = py_int (Max (set (map Balance (df_monthly df_full m)))))
     \<and> (py_int (Max (set (map Balance (df_monthly df_full m))))
           \<le> py_int (Min (set (map Balance (df_monthly df_full m))))
         \<longrightarrow> max_value s = min_value s + step s)
     \<and> default_value s = (min_value s, max_value s)
     \<and> (0 < Max (set (map Balance (df_monthly df_full m)))
          \<and> Max (set (map Balance (df_monthly df_full m))) \<notin> \<int>
          \<and> py_int (Min (set (map Balance (df_monthly df_full m))))
               < py_int (Max (set (map Balance (df_monthly df_full m))))
         \<longrightarrow> (\<forall>r \<in> set (df_monthly df_full m).
                Balance r = Max (set (map Balance (df_monthly df_full m)))
                \<longrightarrow> r \<notin> set (df_filtered (df_monthly df_full m) fs ss rs ps (default_value s))))"
proof -
  define df where "df = df_monthly df_full m"
  define mn where "mn = Min (set (map Balance df))"
  define mx where "mx = Max (set (map Balance df))"
  define s where "s = \<lparr> min_value = py_int mn,
      max_value = (if py_int mn \<ge> py_int mx
                   then py_int mn + max 1 ((py_int mx - py_int mn) div 100) else py_int mx),
      default_value = (py_int mn, (if py_int mn \<ge> py_int mx
                   then py_int mn + max 1 ((py_int mx - py_int mn) div 100) else py_int mx)),
      step = max 1 ((py_int mx - py_int mn) div 100) \<rparr>"
  have ne: "df \<noteq> []" using assms by (simp add: df_def)
  have sl: "balance_slider df = Inr s"
    using ne by (simp add: balance_slider_def Let_def s_def mn_def mx_def)
  have excl: "r \<notin> set (df_filtered df fs ss rs ps (default_value s))"
    if "0 < mx" "mx \<notin> \<int>" "py_int mn < py_int mx" "Balance r = mx" for r
  proof -
    have "of_int (py_int mx) < mx" using that(1,2) by (rule py_int_pos_less)
    moreover have "snd (default_value s) = py_int mx" using that(3) by (simp add: s_def)
    ultimately show ?thesis using that(4) by (simp add: df_filtered_def)
  qed
  have "balance_slider df = Inr s \<and> min_value s = py_int mn
     \<and> (py_int mn < py_int mx \<longrightarrow> max_value s = py_int mx)
     \<and> (py_int mx \<le> py_int mn \<longrightarrow> max_value s = min_value s + step s)
     \<and> default_value s = (min_value s, max_value s)
     \<and> (0 < mx \<and> mx \<notin> \<int> \<and> py_int mn < py_int mx
         \<longrightarrow> (\<forall>r \<in> set df. Balance r = mx
                \<longrightarrow> r \<notin> set (df_filtered df fs ss rs ps (default_value s))))"
    using sl excl by (simp add: s_def)
  then show ?thesis unfolding df_def mn_def mx_def by blast
qed

theorem balance_slider_bounds_witness:
  "df_monthly [row_half, row_big, row3] (2025, 2) \<noteq> []
   \<and> balance_slider (df_monthly [row_half, row_big, row3] (2025, 2))
       = Inr \<lparr> min_value = 100, max_value = 300, default_value = (100, 300), step = 2 \<rparr>
   \<and> Max (set (map Balance (df_monthly [row_half, row_big, row3] (2025, 2)))) = 601 / 2
   \<and> (601 / 2 :: real) \<notin> \<int>
   \<and> row_big \<in> set (df_monthly [row_half, row_big, row3] (2025, 2))
   \<and> Balance row_big = 601 / 2
   \<and> row_big \<notin> set (df_filtered (df_monthly [row_half, row_big, row3] (2025, 2))
        (franchise_options (df_monthly [row_half, row_big, row3] (2025, 2)))
        (sector_options (df_monthly [row_half, row_big, row3] (2025, 2)))
        (rating_options (df_monthly [row_half, row_big, row3] (2025, 2)))
        (product_options (df_monthly [row_half, row_big, row3] (2025, 2))) (100, 300))
   \<and> df_monthly [row_half, row3] (2025, 2) \<noteq> []
   \<and> py_int (Max (set (map Balance (df_monthly [row_half, row3] (2025, 2)))))
       \<le> py_int (Min (set (map Balance (df_monthly [row_half, row3] (2025, 2)))))
   \<and> (\<exists>s. balance_slider (df_monthly [row_half, row3] (2025, 2)) = Inr s
          \<and> min_value s = 100 \<and> step s = 1 \<and> max_value s = 101
          \<and> default_value s = (100, 101))"
proof -
  let ?df = "df_monthly [row_half, row_big, row3] (2025, 2)"
  have ne: "?df \<noteq> []" unfolding df_monthly_half_big by simp
  have mn: "Min (set (map Balance ?df)) = 201 / 2"
    unfolding df_monthly_half_big by (simp add: row_half_def row_big_def)
  have mx: "Max (set (map Balance ?df)) = 601 / 2"
    unfolding df_monthly_half_big by (simp add: row_half_def row_big_def)
  have sl: "balance_slider ?df
       = Inr \<lparr> min_value = 100, max_value = 300, default_value = (100, 300), step = 2 \<rparr>"
    unfolding balance_slider_def Let_def mn mx using ne by (simp add: py_int_def)
  have mem: "row_big \<in> set ?df" unfolding df_monthly_half_big by simp
  have bal: "Balance row_big = 601 / 2" by (simp add: row_big_def)
  have nint: "(601 / 2 :: real) \<notin> \<int>" by simp
  from balance_slider_bounds [OF ne, of "franchise_options ?df" "sector_options ?df"
      "rating_options ?df" "product_options ?df"]
  have "row_big \<notin> set (df_filtered ?df (franchise_options ?df) (sector_options ?df)
        (rating_options ?df) (product_options ?df) (100, 300))"
    unfolding sl mn mx using mem bal by (auto simp: py_int_def)
  moreover
  let ?one = "df_monthly [row_half, row3] (2025, 2)"
  have one: "?one = [row_half]"
    by (simp add: df_monthly_def to_period_M_def row_half_def row3_def)
  have ne1: "?one \<noteq> []" unfolding one by simp
  have mn1: "Min (set (map Balance ?one)) = 201 / 2"
    and mx1: "Max (set (map Balance ?one)) = 201 / 2"
    unfolding one by (simp_all add: row_half_def)
  have le1: "py_int (Max (set (map Balance ?one))) \<le> py_int (Min (set (map Balance ?one)))"
    unfolding mn1 mx1 by simp
  have st1: "balance_slider ?one
       = Inr \<lparr> min_value = 100, max_value = 101, default_value = (100, 101), step = 1 \<rparr>"
    unfolding balance_slider_def Let_def mn1 mx1 using ne1 by (simp add: py_int_def)
  from balance_slider_bounds [OF ne1, of "[]" "[]" "[]" "[]"] le1
  have "\<exists>s. balance_slider ?one = Inr s
          \<and> min_value s = 100 \<and> step s = 1 \<and> max_value s = 101
          \<and> default_value s = (100, 101)"
    unfolding st1 by simp
  ultimately show ?thesis using ne sl mx nint mem bal ne1 le1 by simp
qed

text \<open>
  C9 as stated fails in two ways. A month whose only Balance is 100.5 has both
  truncations equal to 100, so the upper bound becomes 101 and the row stays. A month
  with Balances -100 and -1.5 has the upper bound \<open>int(-1.5) = -1\<close>, above -1.5, and the
  row holding the largest Balance stays.
\<close>

theorem balance_slider_truncation_counterexample:
  "Max (set (map Balance (df_monthly [row_half, row3] (2025, 2)))) = 201 / 2
   \<and> (201 / 2 :: real) \<notin> \<int>
   \<and> balance_slider (df_monthly [row_half, row3] (2025, 2))
       = Inr \<lparr> min_value = 100, max_value = 101, default_value = (100, 101), step = 1 \<rparr>
   \<and> py_int (201 / 2) = 100
   \<and> Balance row_half = 201 / 2
   \<and> default_filtered (df_monthly [row_half, row3] (2025, 2)) = Inr [row_half]
   \<and> Max (set (map Balance (df_monthly [row_neg, row_small_neg, row3] (2025, 2)))) = - (3 / 2)
   \<and> (- (3 / 2) :: real) \<notin> \<int>
   \<and> balance_slider (df_monthly [row_neg, row_small_neg, row3] (2025, 2))
       = Inr \<lparr> min_value = - 100, max_value = - 1, default_value = (- 100, - 1), step = 1 \<rparr>
   \<and> Balance row_small_neg = - (3 / 2)
   \<and> default_filtered (df_monthly [row_neg, row_small_neg, row3] (2025, 2))
       = Inr [row_neg, row_small_neg]"
proof -
  have a: "df_monthly [row_half, row3] (2025, 2) = [row_half]"
    by (simp add: df_monthly_def to_period_M_def row_half_def row3_def)
  have b: "df_monthly [row_neg, row_small_neg, row3] (2025, 2) = [row_neg, row_small_neg]"
    by (simp add: df_monthly_def to_period_M_def row_neg_def row_small_neg_def row3_def)
  have 1: "default_filtered [row_half] = Inr [row_half]"
    by (simp add: default_filtered_def balance_slider_def py_int_def Let_def df_filtered_def
        franchise_options_def sector_options_def product_options_def rating_options_def
        rating_options_all_def row_half_def)
  have 2: "default_filtered [row_neg, row_small_neg] = Inr [row_neg, row_small_neg]"
    by (simp add: default_filtered_def balance_slider_def py_int_def Let_def df_filtered_def
        franchise_options_def sector_options_def product_options_def rating_options_def
        rating_options_all_def row_neg_def row_small_neg_def)
  have 3: "balance_slider [row_half]
       = Inr \<lparr> min_value = 100, max_value = 101, default_value = (100, 101), step = 1 \<rparr>"
    by (simp add: balance_slider_def py_int_def Let_def row_half_def)
  have 4: "balance_slider [row_neg, row_small_neg]
       = Inr \<lparr> min_value = - 100, max_value = - 1, default_value = (- 100, - 1), step = 1 \<rparr>"
    by (simp add: balance_slider_def py_int_def Let_def row_neg_def row_small_neg_def)
  have 5: "Max (set (map Balance [row_half])) = 201 / 2"
    "Max (set (map Balance [row_neg, row_small_neg])) = - (3 / 2)"
    "Balance row_half = 201 / 2" "Balance row_small_neg = - (3 / 2)"
    by (simp_all add: row_half_def row_neg_def row_small_neg_def)
  have 6: "py_int (201 / 2) = 100" "(201 / 2 :: real) \<notin> \<int>" "(- (3 / 2) :: real) \<notin> \<int>"
    by (simp_all add: py_int_def)
  show ?thesis unfolding a b using 1 2 3 4 5 6 by simp
qed

section \<open>Properties of the rating chart data\<close>

lemma category_code_Some: "category_code cs v = Some i \<Longrightarrow> i < length cs \<and> cs ! i = v"
  by (induction cs arbitrary: i) (auto split: if_splits)

lemma category_code_mem: "v \<in> set cs \<Longrightarrow> \<exists>i. category_code cs v = Some i"
  by (induction cs) auto

lemma category_code_nth: "distinct cs \<Longrightarrow> i < length cs \<Longrightarrow> category_code cs (cs ! i) = Some i"
proof (induction cs arbitrary: i)
  case Nil
  then show ?case by simp
next
  case (Cons c cs)
  then show ?case by (cases i) auto
qed

lemma distinct_map_sort_key: "distinct (map f (sort_key k l)) = distinct (map f l)"
  by (simp add: distinct_map)

lemma value_counts_labels:
  "distinct (map fst (value_counts xs))" "set (map fst (value_counts xs)) = set xs"
proof -
  have m: "map fst (map (\<lambda>v. (v, count_list xs v)) (rev (remdups (rev xs)))) = rev (remdups (rev xs))"
    by (simp add: o_def)
  show "distinct (map fst (value_counts xs))"
    unfolding value_counts_def distinct_map_sort_key m by simp
  show "set (map fst (value_counts xs)) = set xs"
    by (simp add: value_counts_def image_image)
qed

lemma code_key_props:
  assumes "v \<in> set cats"
  shows "category_code cats v = Some (code_key cats v)" "code_key cats v < length cats"
    "cats ! code_key cats v = v"
proof -
  from category_code_mem [OF assms] obtain i where i: "category_code cats v = Some i" ..
  then show "category_code cats v = Some (code_key cats v)"
    by (simp add: code_key_def na_last_def)
  from category_code_Some [OF i] i show "code_key cats v < length cats" "cats ! code_key cats v = v"
    by (simp_all add: code_key_def na_last_def)
qed

lemma sorted_categorical_labels:
  assumes cats: "distinct cats" and sub: "set xs \<subseteq> set cats"
  shows "map (\<lambda>(code, c). map_option (\<lambda>i. cats ! i) code)
           (sort_key (\<lambda>(code, c). na_last (length cats) code)
              (map (\<lambda>(v, c). (category_code cats v, c :: nat)) (value_counts xs)))
         = map Some [r \<leftarrow> cats. r \<in> set xs]"
proof -
  define n where "n = length cats"
  define K :: "nat option \<times> nat \<Rightarrow> nat" where "K = (\<lambda>(code, c). na_last n code)"
  define cat where "cat = map (\<lambda>(v, c). (category_code cats v, c)) (value_counts xs)"
  define res where "res = sort_key K cat"
  define keys where "keys = map K res"
  define labs where "labs = map fst (value_counts xs)"
  have dl: "distinct labs" and sl: "set labs = set xs"
    unfolding labs_def by (rule value_counts_labels)+
  have cat_keys: "map K cat = map (code_key cats) labs"
    by (simp add: cat_def K_def code_key_def n_def o_def split_def labs_def)
  have inj: "inj_on (code_key cats) (set xs)"
  proof (rule inj_onI)
    fix v w assume "v \<in> set xs" "w \<in> set xs" "code_key cats v = code_key cats w"
    with sub code_key_props(3) [of v cats] code_key_props(3) [of w cats]
    show "v = w" by auto
  qed
  have "distinct (map K cat)"
    unfolding cat_keys using dl sl inj by (simp add: distinct_map)
  then have d: "distinct keys"
    unfolding keys_def res_def by (simp add: distinct_map_sort_key)
  have s: "sorted keys"
    unfolding keys_def res_def by (rule sorted_sort_key)
  have "set keys = set (map K cat)"
    unfolding keys_def res_def by simp
  also have "\<dots> = code_key cats ` set xs"
    unfolding cat_keys using sl by simp
  also have "\<dots> = {i. i < n \<and> cats ! i \<in> set xs}"
  proof (rule set_eqI, rule iffI)
    fix i assume "i \<in> code_key cats ` set xs"
    then obtain v where v: "v \<in> set xs" "i = code_key cats v" by blast
    with sub code_key_props(2,3) [of v cats]
    show "i \<in> {i. i < n \<and> cats ! i \<in> set xs}" by (auto simp: n_def)
  next
    fix i assume "i \<in> {i. i < n \<and> cats ! i \<in> set xs}"
    then have i: "i < length cats" "cats ! i \<in> set xs" by (simp_all add: n_def)
    from category_code_nth [OF cats i(1)] have "code_key cats (cats ! i) = i"
      by (simp add: code_key_def na_last_def)
    with i(2) show "i \<in> code_key cats ` set xs" by force
  qed
  also have "\<dots> = set (filter (\<lambda>i. cats ! i \<in> set xs) [0..<n])" by auto
  finally have "set keys = set (filter (\<lambda>i. cats ! i \<in> set xs) [0..<n])" .
  with s d have keys: "keys = filter (\<lambda>i. cats ! i \<in> set xs) [0..<n]"
    by (intro sorted_distinct_set_unique) (simp_all add: sorted_wrt_filter)
  have lab: "(case e of (code, c) \<Rightarrow> map_option (\<lambda>i. cats ! i) code) = Some (cats ! K e)"
    if "e \<in> set res" for e
  proof -
    from that have "e \<in> set cat" by (simp add: res_def)
    then obtain v c where e: "e = (category_code cats v, c)" "v \<in> set xs"
      using value_counts_labels(2) [of xs] by (force simp: cat_def)
    with sub code_key_props(1) [of v cats] show ?thesis
      by (auto simp: K_def na_last_def)
  qed
  have "map (\<lambda>(code, c). map_option (\<lambda>i. cats ! i) code) res = map (\<lambda>e. Some (cats ! K e)) res"
    using lab by (intro map_cong) auto
  also have "\<dots> = map Some (map (\<lambda>i. cats ! i) keys)"
    by (simp add: keys_def o_def)
  also have "\<dots> = map Some (filter (\<lambda>r. r \<in> set xs) (map (\<lambda>i. cats ! i) [0..<n]))"
    unfolding keys by (simp add: filter_map o_def)
  also have "map (\<lambda>i. cats ! i) [0..<n] = cats"
    unfolding n_def by (rule map_nth)
  finally show ?thesis
    by (simp add: res_def cat_def K_def n_def)
qed

lemma rating_labels_in_scale:
  assumes "set (map Credit_Rating df) \<subseteq> set rating_options_all"
  shows "rating_labels (rating_counts df)
         = map Some [r \<leftarrow> rating_options_all. r \<in> set (map Credit_Rating df)]"
proof -
  have "distinct rating_options_all" by (simp add: rating_options_all_def)
  from sorted_categorical_labels [OF this assms] show ?thesis
    by (simp add: rating_labels_def rating_counts_def Let_def)
qed

text \<open>
  C5. The multiselect returns a subset of its options, and the options are the ratings of
  the scale present in the month. For every such selection, the label column of the
  facility-count-by-rating chart data, computed from the fully filtered subset, is the
  scale \<open>[AAA, AA, A, BBB, BB, B, CCC]\<close> restricted to the ratings present in that subset.
  The right-hand side depends only on which ratings are present, not on the order of the
  rows or on the counts.
\<close>

theorem rating_counts_order:
  assumes "set selected_ratings \<subseteq> set (rating_options df)"
  shows "rating_labels (rating_counts
            (df_filtered df selected_franchises selected_sectors selected_ratings
               selected_products balance_range))
         = map Some [r \<leftarrow> rating_options_all.
              r \<in> set (map Credit_Rating
                (df_filtered df selected_franchises selected_sectors selected_ratings
                   selected_products balance_range))]"
proof (rule rating_labels_in_scale)
  show "set (map Credit_Rating (df_filtered df selected_franchises selected_sectors
      selected_ratings selected_products balance_range)) \<subseteq> set rating_options_all"
    using assms by (auto simp: df_filtered_def rating_options_def)
qed

theorem rating_counts_order_witness:
  "set [''AAA'', ''AA''] \<subseteq> set (rating_options [row1, row2, row3, row1])
   \<and> df_filtered [row1, row2, row3, row1] [''North'', ''South''] [''Retail'', ''Energy'']
        [''AAA'', ''AA''] [''Term Loan'', ''Revolver''] (100, 300) = [row1, row2, row1]
   \<and> map fst (value_counts (map Credit_Rating [row1, row2, row1])) = [''AA'', ''AAA'']
   \<and> rating_labels (rating_counts
        (df_filtered [row1, row2, row3, row1] [''North'', ''South''] [''Retail'', ''Energy'']
           [''AAA'', ''AA''] [''Term Loan'', ''Revolver''] (100, 300)))
       = [Some ''AAA'', Some ''AA'']"
proof -
  have sub: "set [''AAA'', ''AA''] \<subseteq> set (rating_options [row1, row2, row3, row1])"
    by (simp add: rating_options_def rating_options_all_def row1_def row2_def row3_def)
  have f: "df_filtered [row1, row2, row3, row1] [''North'', ''South''] [''Retail'', ''Energy'']
        [''AAA'', ''AA''] [''Term Loan'', ''Revolver''] (100, 300) = [row1, row2, row1]"
    by (simp add: df_filtered_def row1_def row2_def row3_def)
  have vc: "map fst (value_counts (map Credit_Rating [row1, row2, row1])) = [''AA'', ''AAA'']"
    by (simp add: value_counts_def row1_def row2_def)
  have r: "[r \<leftarrow> rating_options_all. r \<in> set (map Credit_Rating [row1, row2, row1])]
      = [''AAA'', ''AA'']"
    by (simp add: rating_options_all_def row1_def row2_def)
  from rating_counts_order [OF sub, of "[''North'', ''South'']" "[''Retail'', ''Energy'']"
      "[''Term Loan'', ''Revolver'']" "(100, 300)"]
  have "rating_labels (rating_counts
        (df_filtered [row1, row2, row3, row1] [''North'', ''South''] [''Retail'', ''Energy'']
           [''AAA'', ''AA''] [''Term Loan'', ''Revolver''] (100, 300)))
       = [Some ''AAA'', Some ''AA'']"
    unfolding f r by simp
  with sub f vc show ?thesis by blast
qed

section \<open>Properties of the data loader\<close>

text \<open>
  C4. Whatever the read and the Date conversion do, \<^const>\<open>load_loan_data\<close> returns a
  value and raises nothing. When both succeed it reports no error and returns the table
  with its Date column converted. When either raises, it returns the empty table and
  reports: for a missing file, that the data file was not found at its path, where it
  should be and which script creates it; for a missing Parquet decoder, that pyarrow is
  not installed and how to install it; for any other failure, that an error occurred
  loading the data file, followed by the exception's own text.
\<close>

theorem load_loan_data_never_raises:
  "(\<exists>msgs df. load_loan_data str read_parquet to_datetime = Inr (msgs, df))
   \<and> (\<forall>parsed. read_and_parse read_parquet to_datetime = Inr parsed \<longrightarrow>
         load_loan_data str read_parquet to_datetime = Inr ([], parsed))
   \<and> (read_and_parse read_parquet to_datetime = Inl FileNotFoundError \<longrightarrow>
         load_loan_data str read_parquet to_datetime = Inr
           ([''Error: Data file not found at '' @ [CHR 0x27] @ ''./data/loan_data.parquet''
               @ [CHR 0x27],
             ''Ensure the 'data' folder exists in your main app directory and contains 'loan_data.parquet'.'',
             ''You may need to run the `create_data.py` script first.''], []))
   \<and> (read_and_parse read_parquet to_datetime = Inl ImportError
        \<or> read_and_parse read_parquet to_datetime = Inl ModuleNotFoundError \<longrightarrow>
         load_loan_data str read_parquet to_datetime = Inr
           ([''Module 'pyarrow' not installed. Cannot read Parquet file.'',
             ''Please install it (`pip install pyarrow` in your venv) and restart the app.''], []))
   \<and> (\<forall>e. read_and_parse read_parquet to_datetime = Inl e
          \<and> e \<noteq> FileNotFoundError \<and> e \<noteq> ImportError \<and> e \<noteq> ModuleNotFoundError \<longrightarrow>
         load_loan_data str read_parquet to_datetime = Inr
           ([''An error occurred loading the data file: '' @ str e], []))"
  by (cases "read_and_parse read_parquet to_datetime")
     (auto simp: load_loan_data_def data_file_path_def)

theorem load_loan_data_never_raises_witness:
  "load_loan_data (\<lambda>e. ''failed'') (Inl FileNotFoundError :: exn + unit) (\<lambda>raw. Inr [row1])
     = Inr ([''Error: Data file not found at '' @ [CHR 0x27] @ ''./data/loan_data.parquet''
               @ [CHR 0x27],
             ''Ensure the 'data' folder exists in your main app directory and contains 'loan_data.parquet'.'',
             ''You may need to run the `create_data.py` script first.''], [])
   \<and> load_loan_data (\<lambda>e. ''failed'') (Inl ModuleNotFoundError :: exn + unit) (\<lambda>raw. Inr [row1])
     = Inr ([''Module 'pyarrow' not installed. Cannot read Parquet file.'',
             ''Please install it (`pip install pyarrow` in your venv) and restart the app.''], [])
   \<and> load_loan_data (\<lambda>e. ''failed'') (Inr ()) (\<lambda>raw. Inl (KeyError ''Date''))
        = Inr ([''An error occurred loading the data file: failed''], ([] :: loan list))
   \<and> load_loan_data (\<lambda>e. ''failed'') (Inr ()) (\<lambda>raw. Inr [row1]) = Inr ([], [row1])"
proof -
  have 1: "read_and_parse (Inl FileNotFoundError :: exn + unit) (\<lambda>raw. Inr [row1])
      = Inl FileNotFoundError"
    and 2: "read_and_parse (Inl ModuleNotFoundError :: exn + unit) (\<lambda>raw. Inr [row1])
      = Inl ModuleNotFoundError"
    and 3: "read_and_parse (Inr ()) (\<lambda>raw. Inl (KeyError ''Date'') :: exn + loan list)
      = Inl (KeyError ''Date'')"
    and 4: "read_and_parse (Inr ()) (\<lambda>raw. Inr [row1]) = Inr [row1]"
    by (simp_all add: read_and_parse_def)
  from load_loan_data_never_raises [of "\<lambda>e. ''failed''" "Inl FileNotFoundError :: exn + unit"
      "\<lambda>raw. Inr [row1]"] 1
  have a: "load_loan_data (\<lambda>e. ''failed'') (Inl FileNotFoundError :: exn + unit)
      (\<lambda>raw. Inr [row1])
     = Inr ([''Error: Data file not found at '' @ [CHR 0x27] @ ''./data/loan_data.parquet''
               @ [CHR 0x27],
             ''Ensure the 'data' folder exists in your main app directory and contains 'loan_data.parquet'.'',
             ''You may need to run the `create_data.py` script first.''], [])"
    by blast
  from load_loan_data_never_raises [of "\<lambda>e. ''failed''" "Inl ModuleNotFoundError :: exn + unit"
      "\<lambda>raw. Inr [row1]"] 2
  have b: "load_loan_data (\<lambda>e. ''failed'') (Inl ModuleNotFoundError :: exn + unit)
      (\<lambda>raw. Inr [row1])
     = Inr ([''Module 'pyarrow' not installed. Cannot read Parquet file.'',
             ''Please install it (`pip install pyarrow` in your venv) and restart the app.''], [])"
    by blast
  from load_loan_data_never_raises [of "\<lambda>e. ''failed''" "Inr ()"
      "\<lambda>raw. Inl (KeyError ''Date'') :: exn + loan list"] 3
  have c: "load_loan_data (\<lambda>e. ''failed'') (Inr ()) (\<lambda>raw. Inl (KeyError ''Date''))
        = Inr ([''An error occurred loading the data file: failed''], ([] :: loan list))"
    by auto
  from load_loan_data_never_raises [of "\<lambda>e. ''failed''" "Inr ()" "\<lambda>raw. Inr [row1]"] 4
  have d: "load_loan_data (\<lambda>e. ''failed'') (Inr ()) (\<lambda>raw. Inr [row1]) = Inr ([], [row1])"
    by blast
  from a b c d show ?thesis by blast
qed

section \<open>Properties of the display strings\<close>

lemma digit_val_digit_char: "d < 10 \<Longrightarrow> digit_val (digit_char d) = d"
  by (simp add: digit_val_def digit_char_def)

lemma is_digit_digit_char: "d < 10 \<Longrightarrow> is_digit (digit_char d)"
  by (simp add: is_digit_def digit_char_def)

lemma decimal_digits: "list_all is_digit (decimal n)"
proof (induction n rule: decimal.induct)
  case (1 n)
  show ?case
  proof (cases "n < 10")
    case True
    then show ?thesis by (subst decimal.simps) (simp add: is_digit_digit_char)
  next
    case False
    with "1" show ?thesis by (subst decimal.simps) (simp add: is_digit_digit_char)
  qed
qed

lemma decimal_nonempty: "decimal n \<noteq> []"
  by (subst decimal.simps) simp

lemma decimal_value: "foldl (\<lambda>a c. 10 * a + digit_val c) 0 (decimal n) = n"
proof (induction n rule: decimal.induct)
  case (1 n)
  show ?case
  proof (cases "n < 10")
    case True
    then show ?thesis by (subst decimal.simps) (simp add: digit_val_digit_char)
  next
    case False
    with "1" show ?thesis by (subst decimal.simps) (simp add: digit_val_digit_char)
  qed
qed

lemma parse_nat_decimal: "parse_nat (decimal n) = Some n"
  by (simp add: parse_nat_def decimal_nonempty decimal_digits decimal_value)

lemma filter_group_rev:
  "\<not> P (CHR '','') \<Longrightarrow> filter P (group_rev ds) = filter P ds"
  by (induction ds rule: group_rev.induct) simp_all

lemma filter_thousands:
  "\<not> P (CHR '','') \<Longrightarrow> filter P (thousands ds) = filter P ds"
  by (simp add: thousands_def filter_group_rev rev_filter [symmetric])

lemma is_digit_kept: "is_digit c \<Longrightarrow> c \<notin> set pound \<and> c \<noteq> CHR '','' \<and> c \<noteq> CHR ''-''"
  by (auto simp: is_digit_def pound_def)

lemma strip_currency_digits: "list_all is_digit ds \<Longrightarrow> strip_currency (thousands ds) = ds"
proof -
  assume "list_all is_digit ds"
  then have "filter (\<lambda>c. c \<notin> set pound \<and> c \<noteq> CHR '','') ds = ds"
    by (simp add: list_all_iff is_digit_kept)
  then show ?thesis
    by (simp add: strip_currency_def filter_thousands)
qed

lemma strip_currency_append: "strip_currency (a @ b) = strip_currency a @ strip_currency b"
  by (simp add: strip_currency_def)

lemma strip_currency_pound: "strip_currency pound = []" "strip_currency [] = []"
  by (simp_all add: strip_currency_def)

lemma strip_currency_minus: "strip_currency ''-'' = ''-''"
  by (simp add: strip_currency_def pound_def)

lemma strip_currency_format:
  "strip_currency (format_currency x)
     = (if x < 0 then ''-'' else []) @ decimal (nat \<bar>round_half_even x\<bar>)"
  by (simp add: format_currency_def format_comma_0f_def strip_currency_append
      strip_currency_digits decimal_digits strip_currency_pound strip_currency_minus)

lemma parse_number_minus: "parse_number (''-'' @ decimal n) = Some (- of_nat n)"
  by (simp add: parse_nat_decimal)

lemma parse_number_decimal: "parse_number (decimal n) = Some (of_nat n)"
proof -
  obtain c s where cs: "decimal n = c # s"
    using decimal_nonempty [of n] by (cases "decimal n") auto
  with decimal_digits [of n] have "is_digit c" by simp
  then have "c \<noteq> CHR ''-''" by (simp add: is_digit_kept)
  then have "parse_number (c # s) = map_option of_nat (parse_nat (c # s))" by simp
  with cs parse_nat_decimal [of n] show ?thesis by simp
qed

lemma round_half_even_sign:
  "x < 0 \<Longrightarrow> round_half_even x \<le> 0" "0 \<le> x \<Longrightarrow> 0 \<le> round_half_even x"
  unfolding round_half_even_def Let_def by (auto; linarith)+

lemma round_half_even_nearest: "\<bar>x - of_int (round_half_even x)\<bar> \<le> 1 / 2"
  unfolding round_half_even_def Let_def by (auto; linarith)

text \<open>
  C8. For every monetary value \<open>x\<close>, formatting it as currency and parsing the display
  string back, after stripping the pound sign and the commas, gives \<open>x\<close> rounded to a
  nearest whole unit: the parsed number is an integer at distance at most one half from
  \<open>x\<close>, the even one of the two when \<open>x\<close> lies halfway.
\<close>

theorem currency_round_trip:
  "parse_currency (format_currency x) = Some (of_int (round_half_even x))
   \<and> \<bar>x - of_int (round_half_even x)\<bar> \<le> 1 / 2"
proof (cases "x < 0")
  case True
  then have "parse_currency (format_currency x) = Some (- of_nat (nat \<bar>round_half_even x\<bar>))"
    using parse_number_minus by (simp add: parse_currency_def strip_currency_format)
  with True round_half_even_sign(1) [of x] round_half_even_nearest [of x]
  show ?thesis by simp
next
  case False
  then have "parse_currency (format_currency x) = Some (of_nat (nat \<bar>round_half_even x\<bar>))"
    using parse_number_decimal by (simp add: parse_currency_def strip_currency_format)
  with False round_half_even_sign(2) [of x] round_half_even_nearest [of x]
  show ?thesis by simp
qed

lemma digit_chars:
  "digit_char 0 = CHR ''0''" "digit_char 1 = CHR ''1''" "digit_char 2 = CHR ''2''"
  "digit_char 3 = CHR ''3''" "digit_char 4 = CHR ''4''" "digit_char 5 = CHR ''5''"
  "digit_char 6 = CHR ''6''" "digit_char 7 = CHR ''7''" "digit_char 8 = CHR ''8''"
  "digit_char 9 = CHR ''9''" "digit_char (Suc 0) = CHR ''1''"
  by (simp_all add: digit_char_def char_of_eq_iff)

theorem currency_round_trip_witness:
  "format_currency (2469135 / 2) = pound @ ''1,234,568''
   \<and> parse_currency (format_currency (2469135 / 2)) = Some 1234568
   \<and> \<bar>2469135 / 2 - 1234568\<bar> \<le> (1 / 2 :: real)"
proof -
  have r: "round_half_even (2469135 / 2) = 1234568"
    by (simp add: round_half_even_def Let_def)
  have d: "decimal 1234568 = ''1234568''"
    by (simp add: decimal.simps digit_chars)
  have f: "format_currency (2469135 / 2) = pound @ ''1,234,568''"
    by (simp add: format_currency_def format_comma_0f_def r d thousands_def)
  from currency_round_trip [of "2469135 / 2"] f show ?thesis
    unfolding r by simp
qed

section \<open>Properties of the display table\<close>

lemma columns_setitem: "col \<in> set (columns df) \<Longrightarrow> columns (setitem df col c) = columns df"
  by (induction df) (force simp: columns_def)+

lemma getitem_columns: "getitem df col = Inr c \<Longrightarrow> col \<in> set (columns df)"
proof -
  assume "getitem df col = Inr c"
  then have "map_of df col = Some c"
    by (simp add: getitem_def split: option.splits)
  then have "(col, c) \<in> set df" by (rule map_of_SomeD)
  then show ?thesis by (force simp: columns_def)
qed

lemma map_of_setitem: "map_of (setitem df col c) = (map_of df)(col \<mapsto> c)"
  by (induction df) auto

lemma getitem_Numbers:
  "col \<in> set (columns df) \<Longrightarrow> is_numbers df col \<Longrightarrow> \<exists>xs. getitem df col = Inr (Numbers xs)"
  by (auto simp: getitem_def is_numbers_def split: option.splits column.splits)

lemma is_numbers_cong: "map_of df' col = map_of df col \<Longrightarrow> is_numbers df col \<Longrightarrow> is_numbers df' col"
  by (simp add: is_numbers_def)

lemma format_columns_numbers:
  assumes fmt: "\<And>xs. \<exists>c'. fmt (Numbers xs) = Inr c'"
  shows "distinct cols \<Longrightarrow>
     (\<And>col. col \<in> set cols \<Longrightarrow> col \<in> set (columns df) \<Longrightarrow> is_numbers df col) \<Longrightarrow>
     \<exists>df'. format_columns fmt cols df = Inr df' \<and> columns df' = columns df
       \<and> (\<forall>k. k \<notin> set cols \<longrightarrow> map_of df' k = map_of df k)"
proof (induction cols arbitrary: df)
  case Nil
  then show ?case by simp
next
  case (Cons col cols)
  show ?case
  proof (cases "col \<in> set (columns df)")
    case False
    from Cons.prems have "\<exists>df'. format_columns fmt cols df = Inr df' \<and> columns df' = columns df
       \<and> (\<forall>k. k \<notin> set cols \<longrightarrow> map_of df' k = map_of df k)"
      by (intro Cons.IH) auto
    with False show ?thesis by auto
  next
    case True
    with Cons.prems(2) [of col] obtain xs where xs: "getitem df col = Inr (Numbers xs)"
      using getitem_Numbers by auto
    from fmt obtain c' where c': "fmt (Numbers xs) = Inr c'" by blast
    let ?df = "setitem df col c'"
    have cols: "columns ?df = columns df" using True by (rule columns_setitem)
    have "\<exists>df'. format_columns fmt cols ?df = Inr df' \<and> columns df' = columns ?df
       \<and> (\<forall>k. k \<notin> set cols \<longrightarrow> map_of df' k = map_of ?df k)"
    proof (rule Cons.IH)
      show "distinct cols" using Cons.prems(1) by simp
      fix k assume k: "k \<in> set cols" "k \<in> set (columns ?df)"
      with Cons.prems(1) have "k \<noteq> col" by auto
      then have "map_of ?df k = map_of df k" by (simp add: map_of_setitem)
      with Cons.prems(2) [of k] k cols show "is_numbers ?df k"
        by (auto intro: is_numbers_cong)
    qed
    then obtain df' where df': "format_columns fmt cols ?df = Inr df'"
      "columns df' = columns ?df" "\<forall>k. k \<notin> set cols \<longrightarrow> map_of df' k = map_of ?df k"
      by blast
    have "format_columns fmt (col # cols) df = Inr df'"
      using True xs c' df'(1) by (simp add: and_then_def)
    moreover have "\<forall>k. k \<notin> set (col # cols) \<longrightarrow> map_of df' k = map_of df k"
      using df'(3) by (simp add: map_of_setitem)
    ultimately show ?thesis using df'(2) cols by simp
  qed
qed

lemma select_columns_present:
  "set cols \<subseteq> set (columns df) \<Longrightarrow> \<exists>out. select_columns df cols = Inr out \<and> columns out = cols"
proof (induction cols)
  case Nil
  then show ?case by (simp add: columns_def)
next
  case (Cons col cols)
  then obtain out where out: "select_columns df cols = Inr out" "columns out = cols" by auto
  from Cons.prems have "map_of df col \<noteq> None"
    by (simp add: columns_def map_of_eq_None_iff)
  then obtain c where "getitem df col = Inr c" by (auto simp: getitem_def)
  with out show ?case by (simp add: and_then_def columns_def)
qed

lemma loan_frame_numbers:
  "loan_frame df \<Longrightarrow> col \<in> set numeric_cols \<Longrightarrow> col \<in> set (columns df) \<Longrightarrow> is_numbers df col"
  by (auto simp: loan_frame_def list_all_iff)

lemma format_body_loan_frame:
  assumes lf: "loan_frame df"
  shows "\<exists>out. format_body times100 other df = Inr out
           \<and> columns out = [col \<leftarrow> display_cols_all. col \<in> set (columns df)]"
proof -
  have cur: "\<And>xs. \<exists>c'. map_currency other (Numbers xs) = Inr c'"
    by (simp add: map_currency_def)
  have pct: "\<And>p xs. \<exists>c'. map_percent times100 p other (Numbers xs) = Inr c'"
    by (simp add: map_percent_def)
  have num: "is_numbers df col" if "col \<in> set numeric_cols" "col \<in> set (columns df)" for col
    using lf that by (rule loan_frame_numbers)
  obtain df1 where df1: "format_columns (map_currency other) money_cols df = Inr df1"
    "columns df1 = columns df" "\<forall>k. k \<notin> set money_cols \<longrightarrow> map_of df1 k = map_of df k"
    using format_columns_numbers [of "map_currency other" money_cols df, OF cur] num
    by (auto simp: money_cols_def numeric_cols_def)
  obtain df2 where df2:
    "format_columns (map_percent times100 2 other) [''Margin'', ''RAROE''] df1 = Inr df2"
    "columns df2 = columns df1"
    "\<forall>k. k \<notin> set [''Margin'', ''RAROE''] \<longrightarrow> map_of df2 k = map_of df1 k"
  proof -
    have "is_numbers df1 col" if "col \<in> set [''Margin'', ''RAROE'']" "col \<in> set (columns df1)"
      for col
    proof -
      from that(1) have "col \<notin> set money_cols" "col \<in> set numeric_cols"
        by (auto simp: money_cols_def numeric_cols_def)
      with df1(2,3) that(2) num [of col] show ?thesis by (auto intro: is_numbers_cong)
    qed
    with format_columns_numbers [of "map_percent times100 2 other" "[''Margin'', ''RAROE'']" df1, OF pct] that
    show ?thesis by auto
  qed
  obtain df3 where df3: "format_columns (map_percent times100 4 other) [''PD''] df2 = Inr df3"
    "columns df3 = columns df2" "\<forall>k. k \<notin> set [''PD''] \<longrightarrow> map_of df3 k = map_of df2 k"
  proof -
    have "is_numbers df2 col" if "col \<in> set [''PD'']" "col \<in> set (columns df2)" for col
    proof -
      from that(1) have "col \<notin> set money_cols" "col \<notin> set [''Margin'', ''RAROE'']"
        "col \<in> set numeric_cols"
        by (auto simp: money_cols_def numeric_cols_def)
      with df1(2,3) df2(2,3) that(2) num [of col] show ?thesis
        by (auto simp: is_numbers_def)
    qed
    with format_columns_numbers [of "map_percent times100 4 other" "[''PD'']" df2, OF pct] that
    show ?thesis by auto
  qed
  obtain df4 where df4: "format_columns (map_percent times100 1 other) [''LGD''] df3 = Inr df4"
    "columns df4 = columns df3" "\<forall>k. k \<notin> set [''LGD''] \<longrightarrow> map_of df4 k = map_of df3 k"
  proof -
    have "is_numbers df3 col" if "col \<in> set [''LGD'']" "col \<in> set (columns df3)" for col
    proof -
      from that(1) have "col \<notin> set money_cols" "col \<notin> set [''Margin'', ''RAROE'']"
        "col \<notin> set [''PD'']" "col \<in> set numeric_cols"
        by (auto simp: money_cols_def numeric_cols_def)
      with df1(2,3) df2(2,3) df3(2,3) that(2) num [of col] show ?thesis
        by (auto simp: is_numbers_def)
    qed
    with format_columns_numbers [of "map_percent times100 1 other" "[''LGD'']" df3, OF pct] that
    show ?thesis by auto
  qed
  have "map_of df4 ''Date'' = map_of df ''Date''"
    using df1(3) df2(3) df3(3) df4(3) by (simp add: money_cols_def)
  moreover from lf obtain ts where "map_of df ''Date'' = Some (Stamps ts)"
    by (auto simp: loan_frame_def is_stamps_def split: option.splits column.splits)
  ultimately have date: "getitem df4 ''Date'' = Inr (Stamps ts)"
    by (simp add: getitem_def)
  have present: "''Date'' \<in> set (columns df4)"
    using date by (rule getitem_columns)
  let ?df5 = "setitem df4 ''Date'' (Texts (map strftime_ymd ts))"
  have c5: "columns ?df5 = columns df"
    using present df1(2) df2(2) df3(2) df4(2) by (simp add: columns_setitem)
  have "set [col \<leftarrow> display_cols_all. col \<in> set (columns ?df5)] \<subseteq> set (columns ?df5)"
    by auto
  from select_columns_present [OF this] obtain out where
    out: "select_columns ?df5 [col \<leftarrow> display_cols_all. col \<in> set (columns ?df5)] = Inr out"
      "columns out = [col \<leftarrow> display_cols_all. col \<in> set (columns ?df5)]"
    by blast
  have "format_body times100 other df = Inr out"
    using df1(1) df2(1) df3(1) df4(1) date out(1)
    by (simp add: format_body_def and_then_def map_strftime_def Let_def)
  with out(2) c5 show ?thesis by simp
qed

text \<open>
  C7, as amended. Whatever the frame holds, the formatting step raises nothing: it
  returns the messages it reported and a frame to display. On a filtered subset (its Date
  column holds timestamps, as the loader leaves it) whose monetary and percentage
  columns, where present, hold numbers, it reports nothing, whichever columns of the
  priority list are absent, and the columns of the display table are the priority list
  restricted to the columns present.
\<close>

theorem format_display_columns:
  "\<exists>msgs out. format_display str times100 other df = Inr (msgs, out)
     \<and> (loan_frame df \<longrightarrow>
          msgs = [] \<and> columns out = [col \<leftarrow> display_cols_all. col \<in> set (columns df)])"
proof (cases "loan_frame df")
  case True
  from format_body_loan_frame [OF this, of times100 other] obtain out where
    "format_body times100 other df = Inr out"
    "columns out = [col \<leftarrow> display_cols_all. col \<in> set (columns df)]" by blast
  then show ?thesis by (simp add: format_display_def and_then_def)
next
  case False
  then show ?thesis
    by (cases "format_body times100 other df") (simp_all add: format_display_def and_then_def)
qed

theorem format_display_columns_witness:
  "loan_frame frame_numeric
   \<and> ''Facility ID'' \<notin> set (columns frame_numeric)
   \<and> columns frame_numeric = [''Date'', ''Franchise'', ''Sector'', ''Credit Rating'', ''Product'',
        ''Balance'', ''Margin'', ''RWA'', ''Net Interest Income'', ''Fee Income'', ''EAD'']
   \<and> (\<exists>out. format_display (\<lambda>e. ''ValueError'') (\<lambda>x. x * 100) (\<lambda>f c. Inl TypeError)
           frame_numeric = Inr ([], out)
         \<and> columns out = [''Date'', ''Franchise'', ''Sector'', ''Product'', ''Balance'',
              ''Margin'', ''Net Interest Income'', ''Fee Income'', ''Credit Rating'', ''EAD'',
              ''RWA''])"
proof -
  have cols: "columns frame_numeric = [''Date'', ''Franchise'', ''Sector'', ''Credit Rating'',
      ''Product'', ''Balance'', ''Margin'', ''RWA'', ''Net Interest Income'', ''Fee Income'',
      ''EAD'']"
    by (simp add: frame_numeric_def columns_def)
  have lf: "loan_frame frame_numeric"
    unfolding loan_frame_def cols
    by (simp add: is_stamps_def is_numbers_def numeric_cols_def money_cols_def
        frame_numeric_def)
  have absent: "''Facility ID'' \<notin> set (columns frame_numeric)"
    unfolding cols by simp
  have sel: "[col \<leftarrow> display_cols_all. col \<in> set (columns frame_numeric)]
      = [''Date'', ''Franchise'', ''Sector'', ''Product'', ''Balance'', ''Margin'',
         ''Net Interest Income'', ''Fee Income'', ''Credit Rating'', ''EAD'', ''RWA'']"
    unfolding cols by (simp add: display_cols_all_def)
  from format_display_columns [of "\<lambda>e. ''ValueError''" "\<lambda>x. x * 100" "\<lambda>f c. Inl TypeError"
      frame_numeric] lf
  have "\<exists>out. format_display (\<lambda>e. ''ValueError'') (\<lambda>x. x * 100) (\<lambda>f c. Inl TypeError)
           frame_numeric = Inr ([], out)
         \<and> columns out = [''Date'', ''Franchise'', ''Sector'', ''Product'', ''Balance'',
              ''Margin'', ''Net Interest Income'', ''Fee Income'', ''Credit Rating'', ''EAD'',
              ''RWA'']"
    unfolding sel by auto
  with lf absent cols show ?thesis by blast
qed

text \<open>
  C7 as stated fails on a filtered subset with text in an optional monetary column. The
  frame \<^const>\<open>frame_text_ead\<close> has every column the page reads before the display table
  and lacks Facility ID and Customer Name; its EAD column holds the text \<^verbatim>\<open>n/a\<close>. The
  first loop formats Balance and then raises \<^verbatim>\<open>ValueError\<close> on EAD; line 236 catches it,
  an error message is shown, and the table displayed is the unformatted frame in its own
  column order, with Credit Rating before Product and RWA before Net Interest Income, not
  in the priority order. The same happens with text in a percentage column: on
  \<^const>\<open>frame_text_pd\<close>, whose PD column holds \<^verbatim>\<open>n/a\<close>, \<^verbatim>\<open>pd.to_numeric\<close> raises
  \<^verbatim>\<open>ValueError\<close>, which is what \<open>other\<close> is here.
\<close>

theorem format_display_text_column_counterexample:
  "''Facility ID'' \<in> set display_cols_all
   \<and> ''Facility ID'' \<notin> set (columns frame_text_ead)
   \<and> is_stamps frame_text_ead ''Date''
   \<and> format_display (\<lambda>e. ''ValueError'') (\<lambda>x. x * 100) (\<lambda>f c. Inl ValueError) frame_text_ead
       = Inr ([''Error formatting display data: ValueError''], frame_text_ead)
   \<and> columns frame_text_ead = [''Date'', ''Franchise'', ''Sector'', ''Credit Rating'', ''Product'',
        ''Balance'', ''Margin'', ''RWA'', ''Net Interest Income'', ''Fee Income'', ''EAD'']
   \<and> [col \<leftarrow> display_cols_all. col \<in> set (columns frame_text_ead)]
       = [''Date'', ''Franchise'', ''Sector'', ''Product'', ''Balance'', ''Margin'',
          ''Net Interest Income'', ''Fee Income'', ''Credit Rating'', ''EAD'', ''RWA'']
   \<and> columns frame_text_ead \<noteq> [col \<leftarrow> display_cols_all. col \<in> set (columns frame_text_ead)]
   \<and> format_display (\<lambda>e. ''ValueError'') (\<lambda>x. x * 100) (\<lambda>f c. Inl ValueError) frame_text_pd
       = Inr ([''Error formatting display data: ValueError''], frame_text_pd)
   \<and> columns frame_text_pd = [''Date'', ''Franchise'', ''Sector'', ''Credit Rating'', ''Product'',
        ''Balance'', ''Margin'', ''RWA'', ''Net Interest Income'', ''Fee Income'', ''PD'']"
proof -
  have cols: "columns frame_text_ead = [''Date'', ''Franchise'', ''Sector'', ''Credit Rating'',
      ''Product'', ''Balance'', ''Margin'', ''RWA'', ''Net Interest Income'', ''Fee Income'',
      ''EAD'']"
    by (simp add: frame_text_ead_def columns_def)
  have sel: "[col \<leftarrow> display_cols_all. col \<in> set (columns frame_text_ead)]
      = [''Date'', ''Franchise'', ''Sector'', ''Product'', ''Balance'', ''Margin'',
         ''Net Interest Income'', ''Fee Income'', ''Credit Rating'', ''EAD'', ''RWA'']"
    unfolding cols by (simp add: display_cols_all_def)
  have date: "is_stamps frame_text_ead ''Date''"
    by (simp add: is_stamps_def frame_text_ead_def)
  have loop: "format_columns (map_currency (\<lambda>f c. Inl ValueError)) money_cols frame_text_ead
      = Inl ValueError"
    by (simp add: money_cols_def frame_text_ead_def columns_def getitem_def and_then_def
        map_currency_def)
  have body: "format_body (\<lambda>x. x * 100) (\<lambda>f c. Inl ValueError) frame_text_ead = Inl ValueError"
    unfolding format_body_def loop by (simp add: and_then_def)
  have disp: "format_display (\<lambda>e. ''ValueError'') (\<lambda>x. x * 100) (\<lambda>f c. Inl ValueError)
      frame_text_ead = Inr ([''Error formatting display data: ValueError''], frame_text_ead)"
    by (simp add: format_display_def body and_then_def)
  have pri: "''Facility ID'' \<in> set display_cols_all" by (simp add: display_cols_all_def)
  have absent: "''Facility ID'' \<notin> set (columns frame_text_ead)" unfolding cols by simp
  have differ: "columns frame_text_ead
      \<noteq> [col \<leftarrow> display_cols_all. col \<in> set (columns frame_text_ead)]"
    unfolding sel unfolding cols by simp
  have cols_pd: "columns frame_text_pd = [''Date'', ''Franchise'', ''Sector'', ''Credit Rating'',
      ''Product'', ''Balance'', ''Margin'', ''RWA'', ''Net Interest Income'', ''Fee Income'',
      ''PD'']"
    by (simp add: frame_text_pd_def columns_def)
  have loop1: "format_columns (map_currency (\<lambda>f c. Inl ValueError)) money_cols frame_text_pd
      = Inr (map (\<lambda>(k, c). (k, if k \<in> set money_cols
                then (case c of Numbers xs \<Rightarrow> Texts (map format_currency xs) | _ \<Rightarrow> c)
                else c)) frame_text_pd)"
    by (simp add: money_cols_def frame_text_pd_def columns_def getitem_def and_then_def
        map_currency_def)
  have body_pd: "format_body (\<lambda>x. x * 100) (\<lambda>f c. Inl ValueError) frame_text_pd
      = Inl ValueError"
    unfolding format_body_def loop1
    by (simp add: money_cols_def frame_text_pd_def columns_def getitem_def and_then_def
        map_percent_def)
  have disp_pd: "format_display (\<lambda>e. ''ValueError'') (\<lambda>x. x * 100) (\<lambda>f c. Inl ValueError)
      frame_text_pd = Inr ([''Error formatting display data: ValueError''], frame_text_pd)"
    by (simp add: format_display_def body_pd and_then_def)
  from pri absent date disp cols sel differ disp_pd cols_pd show ?thesis by blast
qed

end
